theory Spec2Isabelle
  imports Complex_Main
begin

section \<open>Python values\<close>

text \<open>
  The services of the interviewer pass dynamically typed Python values around: parsed JSON,
  dictionaries built by hand, UUIDs and timestamps of the ORM. One datatype covers them.

  \<^item> A float is kept by its mathematical value, with the three special values of IEEE
    arithmetic beside it. Only comparisons of floats are modelled; rounding is not.
  \<^item> A dictionary is an association list in insertion order; a lookup takes the first
    entry whose key matches.
  \<^item> A \<open>uuid.UUID\<close> is carried as the text \<open>str()\<close> returns for it, and a
    \<open>datetime.date\<close> or \<open>datetime.datetime\<close> as the text \<open>isoformat()\<close> returns.
  \<^item> \<open>PObj n\<close> is any other object (a plain instance with identity \<open>n\<close>): truthy, with no
    length, no items and no \<open>get\<close> method.
  \<^item> Strings are lists of characters, one \<open>char\<close> for each character Python counts.
\<close>

datatype pyfloat = Fin real | PInf | NInf | NaN

datatype pyval =
    PNone
  | PBool bool
  | PInt int
  | PFloat pyfloat
  | PStr string
  | PList "pyval list"
  | PTuple "pyval list"
  | PDict "(pyval \<times> pyval) list"
  | PUuid string
  | PDate string
  | PObj nat

text \<open>
  Exceptions. The built-in kinds are the ones the modelled code can provoke by itself;
  \<open>Raised msg\<close> is an exception raised inside a library call (requests, pandas, the ORM),
  with \<open>str(e) = msg\<close>.
\<close>

datatype exn =
    AttributeError
  | TypeError
  | KeyError
  | IndexError
  | UnboundLocalError
  | RecursionError
  | Raised string

text \<open>Python's \<open><\<close> on floats: every comparison with NaN is false.\<close>

fun flt_less :: "pyfloat \<Rightarrow> pyfloat \<Rightarrow> bool" where
  "flt_less NaN _ = False"
| "flt_less _ NaN = False"
| "flt_less (Fin a) (Fin b) = (a < b)"
| "flt_less (Fin a) PInf = True"
| "flt_less (Fin a) NInf = False"
| "flt_less PInf _ = False"
| "flt_less NInf (Fin b) = True"
| "flt_less NInf PInf = True"
| "flt_less NInf NInf = False"

text \<open>
  The built-ins \<open>min(a, b)\<close> and \<open>max(a, b)\<close> keep their first argument unless the second
  one is strictly smaller (strictly greater).
\<close>

definition py_min :: "pyfloat \<Rightarrow> pyfloat \<Rightarrow> pyfloat" where
  "py_min a b = (if flt_less b a then b else a)"

definition py_max :: "pyfloat \<Rightarrow> pyfloat \<Rightarrow> pyfloat" where
  "py_max a b = (if flt_less a b then b else a)"

text \<open>Truth value testing, as \<open>if x\<close>, \<open>not x\<close> and \<open>x or y\<close> do it.\<close>

fun truthy :: "pyval \<Rightarrow> bool" where
  "truthy PNone = False"
| "truthy (PBool b) = b"
| "truthy (PInt i) = (i \<noteq> 0)"
| "truthy (PFloat f) = (f \<noteq> Fin 0)"
| "truthy (PStr s) = (s \<noteq> [])"
| "truthy (PList vs) = (vs \<noteq> [])"
| "truthy (PTuple vs) = (vs \<noteq> [])"
| "truthy (PDict kvs) = (kvs \<noteq> [])"
| "truthy (PUuid s) = True"
| "truthy (PDate s) = True"
| "truthy (PObj n) = True"

definition py_or :: "pyval \<Rightarrow> pyval \<Rightarrow> pyval" where
  "py_or a b = (if truthy a then a else b)"

fun is_list :: "pyval \<Rightarrow> bool" where
  "is_list (PList vs) = True"
| "is_list _ = False"

fun is_dict :: "pyval \<Rightarrow> bool" where
  "is_dict (PDict kvs) = True"
| "is_dict _ = False"

text \<open>\<open>d.get(k, default)\<close> on a dictionary, for a string key \<open>k\<close>.\<close>

definition dict_get :: "(pyval \<times> pyval) list \<Rightarrow> string \<Rightarrow> pyval \<Rightarrow> pyval" where
  "dict_get d k dflt = (case map_of d (PStr k) of None \<Rightarrow> dflt | Some v \<Rightarrow> v)"

text \<open>
  \<open>x.get(k, default)\<close> on an arbitrary value: only a dictionary has the method, anything
  else raises AttributeError.
\<close>

fun meth_get :: "pyval \<Rightarrow> string \<Rightarrow> pyval \<Rightarrow> exn + pyval" where
  "meth_get (PDict d) k dflt = Inr (dict_get d k dflt)"
| "meth_get _ k dflt = Inl AttributeError"

text \<open>
  \<open>x[0]\<close>. On a dictionary this is a key lookup, and the keys equal to \<open>0\<close> are \<open>0\<close>,
  \<open>False\<close> and \<open>0.0\<close>.
\<close>

definition key_is_zero :: "pyval \<Rightarrow> bool" where
  "key_is_zero k = (k = PInt 0 \<or> k = PBool False \<or> k = PFloat (Fin 0))"

fun subscript0 :: "pyval \<Rightarrow> exn + pyval" where
  "subscript0 (PList []) = Inl IndexError"
| "subscript0 (PList (v # vs)) = Inr v"
| "subscript0 (PTuple []) = Inl IndexError"
| "subscript0 (PTuple (v # vs)) = Inr v"
| "subscript0 (PStr []) = Inl IndexError"
| "subscript0 (PStr (c # cs)) = Inr (PStr [c])"
| "subscript0 (PDict d) =
     (case find (\<lambda>kv. key_is_zero (fst kv)) d of
        None \<Rightarrow> Inl KeyError
      | Some kv \<Rightarrow> Inr (snd kv))"
| "subscript0 _ = Inl TypeError"

text \<open>\<open>len(x)\<close>.\<close>

fun py_len :: "pyval \<Rightarrow> exn + nat" where
  "py_len (PStr s) = Inr (length s)"
| "py_len (PList vs) = Inr (length vs)"
| "py_len (PTuple vs) = Inr (length vs)"
| "py_len (PDict d) = Inr (length d)"
| "py_len _ = Inl TypeError"

text \<open>
  \<open>x[:400] + "..."\<close>: a string is cut and extended; a list or tuple is cut, and adding a
  string to it raises TypeError; nothing else can be sliced.
\<close>

fun excerpt400 :: "pyval \<Rightarrow> exn + pyval" where
  "excerpt400 (PStr s) = Inr (PStr (take 400 s @ ''...''))"
| "excerpt400 _ = Inl TypeError"

text \<open>\<open>s.rfind(c)\<close>: the highest index of \<open>c\<close> in \<open>s\<close>, \<open>None\<close> where Python returns \<open>-1\<close>.\<close>

fun rfind :: "string \<Rightarrow> char \<Rightarrow> nat option" where
  "rfind [] c = None"
| "rfind (x # xs) c =
     (case rfind xs c of
        Some i \<Rightarrow> Some (Suc i)
      | None \<Rightarrow> (if x = c then Some 0 else None))"

section \<open>The environment of the services\<close>

text \<open>
  What the code reads from outside itself: module globals set from the process
  environment, the Django settings, the network, the clock, the database's fresh keys,
  and the library functions it calls (\<open>json\<close>, \<open>float\<close>, \<open>str\<close>, \<open>pandas.read_csv\<close>, the
  storage client). A library function that can raise returns a sum or an option.
\<close>

record request =
  url :: string
  payload :: pyval
  headers :: "(string \<times> string) list"
  timeout :: int

record response =
  status_code :: int
  body_text :: string
  json_body :: "pyval option"

subsection \<open>The rows of the database\<close>

text \<open>
  The rows of \<open>models.py\<close> that the submit endpoint reads and writes. A \<open>Grade\<close> has the
  fields \<open>id\<close>, \<open>submission\<close>, \<open>judge\<close> and \<open>score\<close>; its \<open>runner\<close> field is commented out in
  the source.
\<close>

record question_row =
  q_id :: string
  q_title :: pyval
  q_spec :: pyval
  q_rubric :: pyval

record submission_row =
  sub_id :: string
  sub_assignment :: string
  sub_question :: string
  sub_answer :: pyval
  sub_file_url :: pyval
  sub_created_at :: string

record grade_row =
  grade_id :: string
  grade_submission :: string
  grade_judge :: pyval
  grade_score :: pyfloat

record database =
  assignments :: "string list"
  questions :: "question_row list"
  submissions :: "submission_row list"
  grades :: "grade_row list"

subsection \<open>The environment record\<close>

record env =
  api_key :: "string option"
  settings_debug :: bool
  post :: "request \<Rightarrow> exn + response"
  json_loads :: "string \<Rightarrow> pyval option"
  json_dumps :: "pyval \<Rightarrow> string option"
  py_float :: "pyval \<Rightarrow> pyfloat option"
  py_str :: "pyval \<Rightarrow> string"
  builtin_message :: "exn \<Rightarrow> string"
  read_csv :: "string \<Rightarrow> exn + nat"
  elapsed_ms :: int
  parse_uuid :: "pyval \<Rightarrow> exn + string"
  generate_signed_url :: "pyval \<Rightarrow> exn + pyval"
  submission_uuid :: string
  grade_uuid :: string
  now :: string
  create_submission_error :: "submission_row \<Rightarrow> exn option"
  create_grade_error :: "grade_row \<Rightarrow> exn option"
  recursion_budget :: nat

text \<open>
  \<^item> \<open>api_key\<close>: the module global \<open>SONAR_API_KEY\<close>.
  \<^item> \<open>post\<close>: \<open>requests.post\<close>; \<open>Inl e\<close> when it raises (timeout, connection error).
  \<^item> \<open>body_text\<close> and \<open>json_body\<close> of a response: \<open>resp.text\<close>, and what \<open>resp.json()\<close> returns, \<open>None\<close> when it raises.
  \<^item> \<open>json_loads\<close>, \<open>json_dumps\<close>, \<open>py_float\<close>: \<open>json.loads\<close>, \<open>json.dumps\<close> and the built-in
    \<open>float\<close>; \<open>None\<close> when they raise.
  \<^item> \<open>py_str\<close>: the built-in \<open>str\<close> on a value; \<open>builtin_message\<close>: \<open>str(e)\<close> of a
    built-in exception.
  \<^item> \<open>read_csv\<close>: \<open>len(pandas.read_csv(io.StringIO(s)))\<close>, or the exception pandas raises.
  \<^item> \<open>elapsed_ms\<close>: \<open>int((time.time() - t0) * 1000)\<close> as the health check measures it.
  \<^item> \<open>parse_uuid\<close>: the canonical text of a primary key given to the ORM, or the exception
    the ORM raises when the value is no UUID (ValidationError).
  \<^item> \<open>submission_uuid\<close>, \<open>grade_uuid\<close>, \<open>now\<close>: the defaults the ORM draws for a new row
    (\<open>uuid.uuid4\<close>, \<open>timezone.now\<close>).
  \<^item> \<open>create_submission_error\<close>, \<open>create_grade_error\<close>: the exception the database raises when
    \<open>Model.objects.create\<close> inserts the row (an IntegrityError, a DataError), \<open>None\<close> when
    the row is stored.
  \<^item> \<open>recursion_budget\<close>: how many nested activations of \<open>make_json_safe\<close> the interpreter's
    recursion limit allows inside the submit view.
\<close>

definition exn_str :: "env \<Rightarrow> exn \<Rightarrow> string" where
  "exn_str env e = (case e of Raised msg \<Rightarrow> msg | _ \<Rightarrow> builtin_message env e)"

section \<open>interviews/utils.py\<close>

text \<open>
  \<^verbatim>\<open>
  def make_json_safe(obj):
      if isinstance(obj, uuid.UUID): return str(obj)
      if isinstance(obj, (datetime.date, datetime.datetime)): return obj.isoformat()
      if isinstance(obj, dict): return {k: make_json_safe(v) for k, v in obj.items()}
      if isinstance(obj, (list, tuple)): return [make_json_safe(v) for v in obj]
      return obj
  \<close>
  The function calls itself once for every level of nesting and has no guard of its own,
  so on a value nested deeper than the interpreter allows it raises RecursionError. The
  first argument of the model is the number of nested activations of \<open>make_json_safe\<close>
  the interpreter still allows where the call is made. The keys of a dictionary are kept
  as they are; only the values are converted.
\<close>

text \<open>
  A comprehension evaluates its elements in order and stops at the first one that raises.
\<close>

fun sequence :: "(exn + 'a) list \<Rightarrow> exn + 'a list" where
  "sequence [] = Inr []"
| "sequence (r # rs) =
     (case r of
        Inl e \<Rightarrow> Inl e
      | Inr v \<Rightarrow> (case sequence rs of Inl e \<Rightarrow> Inl e | Inr vs \<Rightarrow> Inr (v # vs)))"

fun make_json_safe :: "nat \<Rightarrow> pyval \<Rightarrow> exn + pyval" where
  "make_json_safe 0 obj = Inl RecursionError"
| "make_json_safe (Suc n) (PUuid s) = Inr (PStr s)"
| "make_json_safe (Suc n) (PDate s) = Inr (PStr s)"
| "make_json_safe (Suc n) (PDict kvs) =
     (case sequence (map (\<lambda>kv. make_json_safe n (snd kv)) kvs) of
        Inl e \<Rightarrow> Inl e
      | Inr vs \<Rightarrow> Inr (PDict (zip (map fst kvs) vs)))"
| "make_json_safe (Suc n) (PList vs) =
     (case sequence (map (make_json_safe n) vs) of
        Inl e \<Rightarrow> Inl e
      | Inr ys \<Rightarrow> Inr (PList ys))"
| "make_json_safe (Suc n) (PTuple vs) =
     (case sequence (map (make_json_safe n) vs) of
        Inl e \<Rightarrow> Inl e
      | Inr ys \<Rightarrow> Inr (PList ys))"
| "make_json_safe (Suc n) obj = Inr obj"

text \<open>
  The result the description of the function promises, written down for comparison with
  the model of the code: every UUID at a value position is replaced by its \<open>str()\<close> text
  and every date by its \<open>isoformat()\<close> text, every tuple at a value position becomes a
  list, lists and dictionaries keep their shape and their order, dictionary keys and all
  other values stay as they are. A value position is the top, an element of a list or
  tuple, or the value of a dictionary entry.
\<close>

primrec json_safe_image :: "pyval \<Rightarrow> pyval" where
  "json_safe_image PNone = PNone"
| "json_safe_image (PBool b) = PBool b"
| "json_safe_image (PInt i) = PInt i"
| "json_safe_image (PFloat f) = PFloat f"
| "json_safe_image (PStr s) = PStr s"
| "json_safe_image (PList vs) = PList (map json_safe_image vs)"
| "json_safe_image (PTuple vs) = PList (map json_safe_image vs)"
| "json_safe_image (PDict kvs) = PDict (map (map_prod id json_safe_image) kvs)"
| "json_safe_image (PUuid s) = PStr s"
| "json_safe_image (PDate s) = PStr s"
| "json_safe_image (PObj n) = PObj n"

text \<open>
  The number of nested activations a value needs: one for the value itself, and one more
  than its deepest element or dictionary value when it is a list, tuple or dictionary.
\<close>

primrec nesting :: "pyval \<Rightarrow> nat" where
  "nesting PNone = 1"
| "nesting (PBool b) = 1"
| "nesting (PInt i) = 1"
| "nesting (PFloat f) = 1"
| "nesting (PStr s) = 1"
| "nesting (PList vs) = Suc (foldr max (map nesting vs) 0)"
| "nesting (PTuple vs) = Suc (foldr max (map nesting vs) 0)"
| "nesting (PDict kvs) = Suc (foldr max (map snd (map (map_prod (\<lambda>k. k) nesting) kvs)) 0)"
| "nesting (PUuid s) = 1"
| "nesting (PDate s) = 1"
| "nesting (PObj n) = 1"

text \<open>
  A value that still holds a UUID, a date or a tuple somewhere, dictionary keys included.
\<close>

primrec unconverted :: "pyval \<Rightarrow> bool" where
  "unconverted PNone = False"
| "unconverted (PBool b) = False"
| "unconverted (PInt i) = False"
| "unconverted (PFloat f) = False"
| "unconverted (PStr s) = False"
| "unconverted (PList vs) = list_ex id (map unconverted vs)"
| "unconverted (PTuple vs) = True"
| "unconverted (PDict kvs) =
     list_ex (\<lambda>p. fst p \<or> snd p) (map (map_prod unconverted unconverted) kvs)"
| "unconverted (PUuid s) = True"
| "unconverted (PDate s) = True"
| "unconverted (PObj n) = False"

text \<open>
  \<open>None\<close> inside \<open>n\<close> lists, one around the other.
\<close>

primrec wrapped :: "nat \<Rightarrow> pyval" where
  "wrapped 0 = PNone"
| "wrapped (Suc n) = PList [wrapped n]"

section \<open>interviews/services/runner.py\<close>

text \<open>
  \<open>csv_text a\<close> is the text of \<open>a\<close> when
  \<^verbatim>\<open>isinstance(candidate_answer, str) and '\n' in candidate_answer\<close> holds.
\<close>

fun csv_text :: "pyval \<Rightarrow> string option" where
  "csv_text (PStr s) = (if CHR 0x0A \<in> set s then Some s else None)"
| "csv_text _ = None"

definition rows_present_check :: "nat \<Rightarrow> pyval" where
  "rows_present_check n =
     PDict [(PStr ''name'', PStr ''rows_present''),
            (PStr ''passed'', PBool (0 < n)),
            (PStr ''rows'', PInt (int n))]"

definition non_empty_check :: pyval where
  "non_empty_check =
     PDict [(PStr ''name'', PStr ''non_empty_submission''), (PStr ''passed'', PBool True)]"

definition exception_check :: "string \<Rightarrow> pyval" where
  "exception_check msg =
     PDict [(PStr ''name'', PStr ''exception''),
            (PStr ''passed'', PBool False),
            (PStr ''error'', PStr msg)]"

text \<open>
  The body of the \<open>try\<close> block of \<open>run_checks\<close>: the values of \<open>passed\<close> and \<open>checks\<close> when
  it completes, or the exception it raises. The only call that can raise is
  \<open>pd.read_csv\<close>, and it comes before the first \<open>checks.append\<close>.
\<close>

definition run_checks_try :: "env \<Rightarrow> pyval \<Rightarrow> exn + (bool \<times> pyval list)" where
  "run_checks_try env candidate_answer =
     (if truthy candidate_answer then
        (case csv_text candidate_answer of
           Some s \<Rightarrow>
             (case read_csv env s of
                Inl e \<Rightarrow> Inl e
              | Inr n \<Rightarrow> Inr (0 < n, [rows_present_check n]))
         | None \<Rightarrow> Inr (True, [non_empty_check]))
      else Inr (False, []))"

definition runner_result :: "bool \<Rightarrow> pyval list \<Rightarrow> pyval" where
  "runner_result passed checks =
     PDict [(PStr ''passed'', PBool passed),
            (PStr ''checks'', PList checks),
            (PStr ''score_runner'', PFloat (if passed then Fin 100 else Fin 0))]"

text \<open>
  \<open>run_checks(spec, candidate_answer)\<close>: the \<open>try\<close> block, the handler
  \<^verbatim>\<open>except Exception as e\<close> (which appends the exception entry to the still empty list and
  resets \<open>passed\<close>), and the final \<open>return\<close>. The argument \<open>spec\<close> is not read.
\<close>

definition run_checks :: "env \<Rightarrow> pyval \<Rightarrow> pyval \<Rightarrow> exn + pyval" where
  "run_checks env spec candidate_answer =
     (case run_checks_try env candidate_answer of
        Inr (passed, checks) \<Rightarrow> Inr (runner_result passed checks)
      | Inl e \<Rightarrow> Inr (runner_result False ([] @ [exception_check (exn_str env e)])))"

section \<open>interviews/services/sonar_reasoning.py\<close>

definition API_URL :: string where
  "API_URL = ''https://api.perplexity.ai/chat/completions''"

definition MODEL :: string where
  "MODEL = ''sonar-reasoning''"

text \<open>\<open>not SONAR_API_KEY\<close>: the global is \<open>None\<close> or the empty string.\<close>

definition key_absent :: "env \<Rightarrow> bool" where
  "key_absent env = (case api_key env of None \<Rightarrow> True | Some k \<Rightarrow> k = [])"

definition auth_headers :: "env \<Rightarrow> (string \<times> string) list" where
  "auth_headers env =
     [(''Authorization'', ''Bearer '' @ (case api_key env of None \<Rightarrow> ''None'' | Some k \<Rightarrow> k)),
      (''Content-Type'', ''application/json'')]"

subsection \<open>The text of the model's answer\<close>

text \<open>
  The \<open>if isinstance(data, dict)\<close> block of \<open>_extract_candidate_text\<close>: \<open>Some content\<close>
  when it returns the content, \<open>None\<close> when control falls through to the final
  \<open>json.dumps(data)\<close>, and the exception when a subscript or a \<open>get\<close> on a value of the
  wrong type raises.
\<close>

definition chat_content :: "pyval \<Rightarrow> exn + pyval option" where
  "chat_content data =
     (case data of
        PDict d \<Rightarrow>
          (let choices = py_or (dict_get d ''choices'' PNone) (PList []) in
           if truthy choices then
             (case subscript0 choices of
                Inl e \<Rightarrow> Inl e
              | Inr first \<Rightarrow>
                  (if is_dict first then
                     (case meth_get first ''message'' PNone of
                        Inl e \<Rightarrow> Inl e
                      | Inr m \<Rightarrow>
                          (let message = py_or m (PDict []) in
                           case meth_get message ''content'' PNone of
                             Inl e \<Rightarrow> Inl e
                           | Inr c \<Rightarrow>
                               (if truthy c then Inr (Some c)
                                else
                                  (case meth_get message ''text'' PNone of
                                     Inl e \<Rightarrow> Inl e
                                   | Inr t \<Rightarrow> (if truthy t then Inr (Some t) else Inr None)))))
                   else Inr None))
           else Inr None)
      | _ \<Rightarrow> Inr None)"

definition extract_candidate_text :: "env \<Rightarrow> response \<Rightarrow> exn + pyval" where
  "extract_candidate_text env resp =
     (case json_body resp of
        None \<Rightarrow> Inr (py_or (PStr (body_text resp)) (PStr []))
      | Some data \<Rightarrow>
          (case chat_content data of
             Inl e \<Rightarrow> Inl e
           | Inr (Some content) \<Rightarrow> Inr content
           | Inr None \<Rightarrow>
               (case json_dumps env data of
                  None \<Rightarrow> Inl TypeError
                | Some s \<Rightarrow> Inr (PStr s))))"

subsection \<open>Recovering a JSON value from text\<close>

text \<open>
  The loop \<^verbatim>\<open>for i, ch in enumerate(candidate)\<close> of \<open>_safe_parse_json\<close>, from index \<open>i\<close> on,
  with \<open>rest\<close> the characters still to visit. It yields the value the function returns:
  the parsed block, or \<open>None\<close> after a \<open>break\<close> or when the characters run out.
\<close>

fun brace_scan :: "env \<Rightarrow> string \<Rightarrow> string \<Rightarrow> nat \<Rightarrow> int \<Rightarrow> pyval" where
  "brace_scan env candidate [] i depth = PNone"
| "brace_scan env candidate (ch # rest) i depth =
     (if ch = CHR ''{'' then brace_scan env candidate rest (Suc i) (depth + 1)
      else if ch = CHR ''}'' then
        (if depth - 1 = 0 then
           (case json_loads env (take (Suc i) candidate) of
              Some v \<Rightarrow> v
            | None \<Rightarrow> PNone)
         else brace_scan env candidate rest (Suc i) (depth - 1))
      else brace_scan env candidate rest (Suc i) depth)"

text \<open>The handler of the first \<open>json.loads\<close>, for a text that is a string.\<close>

definition last_block :: "env \<Rightarrow> string \<Rightarrow> pyval" where
  "last_block env s =
     (case rfind s (CHR ''{'') of
        None \<Rightarrow> PNone
      | Some last_open \<Rightarrow>
          (let candidate = drop last_open s in brace_scan env candidate candidate 0 0))"

text \<open>
  \<open>_safe_parse_json(text)\<close>. The annotation says \<open>text: str\<close>, but the caller hands over
  whatever the response carried. On a truthy value that is no string, \<open>json.loads\<close>
  raises TypeError, the handler runs, and its \<open>text.rfind\<close> raises AttributeError.
\<close>

definition safe_parse_json :: "env \<Rightarrow> pyval \<Rightarrow> exn + pyval" where
  "safe_parse_json env txt =
     (if \<not> truthy txt then Inr PNone
      else
        (case txt of
           PStr s \<Rightarrow>
             (case json_loads env s of
                Some v \<Rightarrow> Inr v
              | None \<Rightarrow> Inr (last_block env s))
         | _ \<Rightarrow> Inl AttributeError))"

subsection \<open>The judge\<close>

definition judge_dict ::
  "pyval \<Rightarrow> pyval \<Rightarrow> pyval \<Rightarrow> pyval \<Rightarrow> pyval \<Rightarrow> pyval \<Rightarrow> pyval" where
  "judge_dict score verdict mistakes improvements citations debug =
     PDict [(PStr ''score'', score),
            (PStr ''verdict'', verdict),
            (PStr ''mistakes'', mistakes),
            (PStr ''improvements'', improvements),
            (PStr ''citations'', citations),
            (PStr ''debug'', debug)]"

definition no_api_key_result :: pyval where
  "no_api_key_result =
     judge_dict (PFloat (Fin 0)) (PStr ''Sonar unavailable (no API key)'') (PList [])
       (PList [PStr ''Sonar API key not configured on server.'']) (PList [])
       (PDict [(PStr ''reason'', PStr ''no_api_key'')])"

definition network_error_result :: "string \<Rightarrow> pyval" where
  "network_error_result msg =
     judge_dict (PFloat (Fin 0)) (PStr ''Sonar unavailable (network error)'') (PList [])
       (PList [PStr (''network_error: '' @ msg)]) (PList [])
       (PDict [(PStr ''exception'', PStr msg)])"

definition debug_dict :: "pyval \<Rightarrow> pyval \<Rightarrow> pyval" where
  "debug_dict status raw_excerpt =
     PDict [(PStr ''http_status'', status), (PStr ''raw_excerpt'', raw_excerpt)]"

definition unparsable_result :: "pyval \<Rightarrow> pyval \<Rightarrow> pyval" where
  "unparsable_result status raw_excerpt =
     judge_dict (PFloat (Fin 0)) (PStr ''Sonar unavailable (unparsable response)'') (PList [])
       (PList [PStr ''Sonar returned an unparsable response.'']) (PList [])
       (debug_dict status raw_excerpt)"

definition system_prompt :: string where
  "system_prompt =
     ''You are Sonar-reasoning. RETURN ONLY a single valid JSON object and nothing else. '' @
     ''The JSON must contain keys: score (number 0..100), verdict (string), mistakes (array), improvements (array), citations (array). '' @
     ''Do not include any commentary, analysis, or text outside the JSON. '' @
     ''If you cannot produce values for a key, return an empty array or empty string as appropriate.''"

text \<open>
  The user prompt embeds \<open>json.dumps\<close> of the three arguments, in this order; a value
  that \<open>json.dumps\<close> cannot serialise raises TypeError before any request is made.
\<close>

definition user_prompt :: "env \<Rightarrow> pyval \<Rightarrow> pyval \<Rightarrow> pyval \<Rightarrow> exn + string" where
  "user_prompt env question submission runner_res =
     (case json_dumps env question of
        None \<Rightarrow> Inl TypeError
      | Some q \<Rightarrow>
          (case json_dumps env submission of
             None \<Rightarrow> Inl TypeError
           | Some s \<Rightarrow>
               (case json_dumps env runner_res of
                  None \<Rightarrow> Inl TypeError
                | Some r \<Rightarrow>
                    Inr (''Question:'' @ [CHR 0x0A] @ q @ [CHR 0x0A, CHR 0x0A] @
                         ''Submission:'' @ [CHR 0x0A] @ s @ [CHR 0x0A, CHR 0x0A] @
                         ''Runner checks:'' @ [CHR 0x0A] @ r @ [CHR 0x0A, CHR 0x0A] @
                         ''Return ONLY the JSON object with keys: score, verdict, mistakes, improvements, citations.''))))"

definition chat_message :: "string \<Rightarrow> string \<Rightarrow> pyval" where
  "chat_message role content_text =
     PDict [(PStr ''role'', PStr role), (PStr ''content'', PStr content_text)]"

definition judge_request :: "env \<Rightarrow> string \<Rightarrow> request" where
  "judge_request env prompt =
     \<lparr> url = API_URL,
       payload = PDict [(PStr ''model'', PStr MODEL),
                        (PStr ''temperature'', PFloat (Fin 0)),
                        (PStr ''messages'',
                           PList [chat_message ''system'' system_prompt,
                                  chat_message ''user'' prompt])],
       headers = auth_headers env,
       timeout = 60 \<rparr>"

text \<open>
  The first \<open>try\<close> after the request: the pair of \<open>candidate_text\<close> (\<open>None\<close> while the
  local is unbound) and \<open>raw_excerpt\<close>.
  \<^verbatim>\<open>
  try:
      candidate_text = _extract_candidate_text(resp)
      raw_excerpt = (candidate_text[:400] + "...") if len(candidate_text) > 400 else candidate_text
  except Exception:
      raw_excerpt = (resp.text[:400] + "...") if resp.text else ""
  \<close>
\<close>

definition fallback_excerpt :: "response \<Rightarrow> pyval" where
  "fallback_excerpt resp =
     (if body_text resp \<noteq> [] then PStr (take 400 (body_text resp) @ ''...'') else PStr [])"

definition excerpt_of :: "pyval \<Rightarrow> exn + pyval" where
  "excerpt_of candidate_text =
     (case py_len candidate_text of
        Inl e \<Rightarrow> Inl e
      | Inr n \<Rightarrow> (if 400 < n then excerpt400 candidate_text else Inr candidate_text))"

definition candidate_and_excerpt :: "env \<Rightarrow> response \<Rightarrow> pyval option \<times> pyval" where
  "candidate_and_excerpt env resp =
     (case extract_candidate_text env resp of
        Inl e \<Rightarrow> (None, fallback_excerpt resp)
      | Inr candidate_text \<Rightarrow>
          (case excerpt_of candidate_text of
             Inl e \<Rightarrow> (Some candidate_text, fallback_excerpt resp)
           | Inr raw_excerpt \<Rightarrow> (Some candidate_text, raw_excerpt)))"

text \<open>
  \<open>float(score)\<close> with its handler, then the clamp
  \<^verbatim>\<open>score = max(0.0, min(100.0, score))\<close>.
\<close>

definition clamp_score :: "env \<Rightarrow> pyval \<Rightarrow> pyfloat" where
  "clamp_score env score =
     py_max (Fin 0) (py_min (Fin 100)
       (case py_float env score of None \<Rightarrow> Fin 0 | Some f \<Rightarrow> f))"

text \<open>\<^verbatim>\<open>if not isinstance(x, list): x = [str(x)]\<close>\<close>

definition ensure_list :: "env \<Rightarrow> pyval \<Rightarrow> pyval" where
  "ensure_list env x = (if is_list x then x else PList [PStr (py_str env x)])"

text \<open>
  The normalisation of a truthy \<open>parsed\<close>. Its first statement calls \<open>parsed.get\<close>, which
  only a dictionary has.
\<close>

definition normalize_parsed :: "env \<Rightarrow> pyval \<Rightarrow> pyval \<Rightarrow> pyval \<Rightarrow> exn + pyval" where
  "normalize_parsed env parsed status raw_excerpt =
     (case parsed of
        PDict d \<Rightarrow>
          (let score = dict_get d ''score'' (dict_get d ''grade'' (PInt 0));
               verdict = py_or (dict_get d ''verdict'' (dict_get d ''summary'' (PStr []))) (PStr []);
               mistakes = py_or (dict_get d ''mistakes'' (dict_get d ''errors'' (PList []))) (PList []);
               improvements = py_or (dict_get d ''improvements'' (dict_get d ''advice'' (PList []))) (PList []);
               citations = py_or (dict_get d ''citations'' (PList [])) (PList [])
           in Inr (judge_dict (PFloat (clamp_score env score)) verdict
                     (ensure_list env mistakes) (ensure_list env improvements)
                     (ensure_list env citations) (debug_dict status raw_excerpt)))
      | _ \<Rightarrow> Inl AttributeError)"

text \<open>
  \<open>judge_answer\<close> from the line after the request to its end. Reading \<open>candidate_text\<close>
  while it is unbound raises UnboundLocalError.
\<close>

definition judge_response :: "env \<Rightarrow> response \<Rightarrow> exn + pyval" where
  "judge_response env resp =
     (let status = PInt (status_code resp) in
      case candidate_and_excerpt env resp of
        (None, raw_excerpt) \<Rightarrow> Inl UnboundLocalError
      | (Some candidate_text, raw_excerpt) \<Rightarrow>
          (case safe_parse_json env candidate_text of
             Inl e \<Rightarrow> Inl e
           | Inr parsed \<Rightarrow>
               (if \<not> truthy parsed then Inr (unparsable_result status raw_excerpt)
                else normalize_parsed env parsed status raw_excerpt)))"

text \<open>
  \<open>judge_answer(question, submission, runner_result)\<close>: the value it returns or the
  exception it raises, and the requests it has sent.
\<close>

definition judge_answer ::
  "env \<Rightarrow> pyval \<Rightarrow> pyval \<Rightarrow> pyval \<Rightarrow> (exn + pyval) \<times> request list" where
  "judge_answer env question submission runner_res =
     (if key_absent env then (Inr no_api_key_result, [])
      else
        (case user_prompt env question submission runner_res of
           Inl e \<Rightarrow> (Inl e, [])
         | Inr prompt \<Rightarrow>
             (let req = judge_request env prompt in
              case post env req of
                Inl e \<Rightarrow> (Inr (network_error_result (exn_str env e)), [req])
              | Inr resp \<Rightarrow> (judge_response env resp, [req]))))"

subsection \<open>The health check\<close>

definition ping_system_prompt :: string where
  \<open>ping_system_prompt =
     ''You are a diagnostic helper. Reply quickly with the single JSON: {"ok": true} (no extra text).''\<close>

definition ping_request :: "env \<Rightarrow> int \<Rightarrow> request" where
  "ping_request env tmo =
     \<lparr> url = API_URL,
       payload = PDict [(PStr ''model'', PStr MODEL),
                        (PStr ''temperature'', PFloat (Fin 0)),
                        (PStr ''messages'',
                           PList [chat_message ''system'' ping_system_prompt,
                                  chat_message ''user'' ''health-check'']),
                        (PStr ''max_tokens'', PInt 8)],
       headers = auth_headers env,
       timeout = tmo \<rparr>"

definition ping_info :: "env \<Rightarrow> response \<Rightarrow> bool \<times> pyval" where
  "ping_info env resp =
     (let status = status_code resp;
          txt = body_text resp;
          excerpt = (if 400 < length txt then take 400 txt @ ''...'' else txt);
          parsed = (case json_body resp of None \<Rightarrow> PNone | Some v \<Rightarrow> v);
          ok = ((200 \<le> status \<and> status < 300) \<and> parsed \<noteq> PNone)
      in (ok, PDict [(PStr ''http_status'', PInt status),
                     (PStr ''time_ms'', PInt (elapsed_ms env)),
                     (PStr ''parsed'', PBool (truthy parsed)),
                     (PStr ''raw_excerpt'', PStr excerpt)]))"

text \<open>
  \<open>ping(timeout)\<close>. Its first statement is
  \<^verbatim>\<open>
  if not settings.DEBUG:
      info.pop("raw_excerpt", None)
  \<close>
  and \<open>info\<close> is a local of the function (it is assigned further down) that is still
  unbound there, so outside debugging the read raises UnboundLocalError.
\<close>

definition ping :: "env \<Rightarrow> int \<Rightarrow> (exn + bool \<times> pyval) \<times> request list" where
  "ping env tmo =
     (if \<not> settings_debug env then (Inl UnboundLocalError, [])
      else if key_absent env then
        (Inr (False, PDict [(PStr ''error'', PStr ''no_api_key'')]), [])
      else
        (let req = ping_request env tmo in
         case post env req of
           Inl e \<Rightarrow>
             (Inr (False, PDict [(PStr ''exception'', PStr (exn_str env e)),
                                 (PStr ''time_ms'', PInt (elapsed_ms env))]), [req])
         | Inr resp \<Rightarrow> (Inr (ping_info env resp), [req])))"


section \<open>interviews/views_candidate.py\<close>

datatype http_response = HttpResponseBadRequest string | JsonResponse pyval

text \<open>
  \<open>Model.objects.get(id=key)\<close>: the row, \<open>None\<close> for \<open>DoesNotExist\<close>, or the exception the
  ORM raises on a key that is no UUID.
\<close>

definition orm_get :: "env \<Rightarrow> ('a \<Rightarrow> string) \<Rightarrow> 'a list \<Rightarrow> pyval \<Rightarrow> exn + 'a option" where
  "orm_get env pk rows key =
     (case parse_uuid env key of
        Inl e \<Rightarrow> Inl e
      | Inr u \<Rightarrow> Inr (find (\<lambda>row. pk row = u) rows))"

text \<open>\<open>d.pop(k, None)\<close>, for the dictionary left behind.\<close>

fun dict_pop :: "pyval \<Rightarrow> string \<Rightarrow> pyval" where
  "dict_pop (PDict d) k = PDict (filter (\<lambda>kv. fst kv \<noteq> PStr k) d)"
| "dict_pop v k = v"

definition judge_error_result :: "string \<Rightarrow> pyval" where
  "judge_error_result msg =
     PDict [(PStr ''score'', PInt 0),
            (PStr ''verdict'', PStr ''error''),
            (PStr ''mistakes'', PList []),
            (PStr ''improvements'', PList [PStr (''judge_error: '' @ msg)]),
            (PStr ''citations'', PList [])]"

text \<open>
  The call of the judge with its handler:
  \<^verbatim>\<open>
  try:
      judge_result = sonar_reasoning.judge_answer(question_payload, submission_payload, None)
  except Exception as e:
      judge_result = {"score": 0, "verdict": "error", ...}
  \<close>
  The third argument is the constant \<open>None\<close>. \<open>judge_or_error\<close> is the value bound to
  \<open>judge_result\<close> for an outcome of the call.
\<close>

definition judge_or_error :: "env \<Rightarrow> exn + pyval \<Rightarrow> pyval" where
  "judge_or_error env outcome =
     (case outcome of
        Inr judge_result \<Rightarrow> judge_result
      | Inl e \<Rightarrow> judge_error_result (exn_str env e))"

definition call_judge :: "env \<Rightarrow> pyval \<Rightarrow> pyval \<Rightarrow> pyval \<times> request list" where
  "call_judge env question_payload submission_payload =
     (case judge_answer env question_payload submission_payload PNone of
        (outcome, calls) \<Rightarrow> (judge_or_error env outcome, calls))"

definition question_payload_of :: "env \<Rightarrow> question_row \<Rightarrow> exn + pyval" where
  "question_payload_of env question =
     make_json_safe (recursion_budget env)
       (PDict [(PStr ''id'', PUuid (q_id question)),
               (PStr ''title'', q_title question),
               (PStr ''spec'', py_or (q_spec question) (PDict [])),
               (PStr ''rubric'', py_or (q_rubric question) (PDict []))])"

text \<open>
  The signed URL handed to the judge:
  \<^verbatim>\<open>
  sonar_file_url = None
  if submission.file_url:
      try: sonar_file_url = storage_service.generate_signed_url(submission.file_url, expires_in=300)
      except Exception: sonar_file_url = submission.file_url
  \<close>
\<close>

definition sonar_file_url_of :: "env \<Rightarrow> submission_row \<Rightarrow> pyval" where
  "sonar_file_url_of env submission =
     (if truthy (sub_file_url submission) then
        (case generate_signed_url env (sub_file_url submission) of
           Inl e \<Rightarrow> sub_file_url submission
         | Inr signed \<Rightarrow> signed)
      else PNone)"

definition submission_payload_of :: "env \<Rightarrow> submission_row \<Rightarrow> exn + pyval" where
  "submission_payload_of env submission =
     make_json_safe (recursion_budget env)
       (PDict [(PStr ''submission_id'', PUuid (sub_id submission)),
               (PStr ''answer'', sub_answer submission),
               (PStr ''file_url'', py_or (sonar_file_url_of env submission) (sub_file_url submission)),
               (PStr ''created_at'', PDate (sub_created_at submission))])"

definition new_submission :: "env \<Rightarrow> string \<Rightarrow> question_row \<Rightarrow> pyval \<Rightarrow> pyval \<Rightarrow> submission_row" where
  "new_submission env assignment question answer file_url =
     \<lparr> sub_id = submission_uuid env,
       sub_assignment = assignment,
       sub_question = q_id question,
       sub_answer = (if answer \<noteq> PNone then answer else PDict []),
       sub_file_url = py_or file_url PNone,
       sub_created_at = now env \<rparr>"

definition new_grade :: "env \<Rightarrow> submission_row \<Rightarrow> pyval \<Rightarrow> pyfloat \<Rightarrow> grade_row" where
  "new_grade env submission safe_judge final_score =
     \<lparr> grade_id = grade_uuid env,
       grade_submission = sub_id submission,
       grade_judge = safe_judge,
       grade_score = final_score \<rparr>"

definition grading_response :: "env \<Rightarrow> submission_row \<Rightarrow> grade_row \<Rightarrow> pyval" where
  "grading_response env submission grade =
     PDict [(PStr ''ok'', PBool True),
            (PStr ''submission_id'', PStr (sub_id submission)),
            (PStr ''grade_id'', PStr (grade_id grade)),
            (PStr ''score'', PFloat (grade_score grade)),
            (PStr ''runner'', PNone),
            (PStr ''judge'',
               (if \<not> settings_debug env \<and> is_dict (grade_judge grade)
                then dict_pop (grade_judge grade) ''debug''
                else grade_judge grade)),
            (PStr ''file_url'', sub_file_url submission)]"

text \<open>
  \<open>submit_answer\<close> from the point where the judge has answered:
  \<^verbatim>\<open>
  safe_judge = make_json_safe(judge_result)
  final_score = float(safe_judge.get("score", 0) or 0)
  grade = Grade.objects.create(submission=submission, judge=safe_judge, score=final_score)
  response = {...}
  \<close>
  None of these statements is inside a \<open>try\<close>: an exception of \<open>make_json_safe\<close>, of
  \<open>float\<close> or of the database escapes the view, with the submission already stored.
\<close>

definition store_grade ::
  "env \<Rightarrow> database \<Rightarrow> submission_row \<Rightarrow> pyval \<Rightarrow> request list
     \<Rightarrow> (exn + http_response) \<times> database \<times> request list" where
  "store_grade env db1 submission judge_result calls =
     (case make_json_safe (recursion_budget env) judge_result of
        Inl e \<Rightarrow> (Inl e, db1, calls)
      | Inr safe_judge \<Rightarrow>
          (case meth_get safe_judge ''score'' (PInt 0) of
             Inl e \<Rightarrow> (Inl e, db1, calls)
           | Inr sc \<Rightarrow>
               (case py_float env (py_or sc (PInt 0)) of
                  None \<Rightarrow> (Inl TypeError, db1, calls)
                | Some final_score \<Rightarrow>
                    (let grade = new_grade env submission safe_judge final_score in
                     case create_grade_error env grade of
                       Some e \<Rightarrow> (Inl e, db1, calls)
                     | None \<Rightarrow>
                         (Inr (JsonResponse (grading_response env submission grade)),
                          db1\<lparr>grades := grades db1 @ [grade]\<rparr>,
                          calls)))))"

text \<open>
  \<open>submit_answer\<close> from \<open>Submission.objects.create\<close> on: the submission is stored, the
  payloads are built, the judge is called, the grade is stored, the response is built.
  \<open>Submission.objects.create\<close> and the two payload constructions are outside any \<open>try\<close>.
\<close>

definition grade_submission_of ::
  "env \<Rightarrow> database \<Rightarrow> string \<Rightarrow> question_row \<Rightarrow> pyval \<Rightarrow> pyval
     \<Rightarrow> (exn + http_response) \<times> database \<times> request list" where
  "grade_submission_of env db assignment question answer file_url =
     (let submission = new_submission env assignment question answer file_url in
      case create_submission_error env submission of
        Some e \<Rightarrow> (Inl e, db, [])
      | None \<Rightarrow>
          (let db1 = db\<lparr>submissions := submissions db @ [submission]\<rparr> in
           case question_payload_of env question of
             Inl e \<Rightarrow> (Inl e, db1, [])
           | Inr question_payload \<Rightarrow>
               (case submission_payload_of env submission of
                  Inl e \<Rightarrow> (Inl e, db1, [])
                | Inr submission_payload \<Rightarrow>
                    (case call_judge env question_payload submission_payload of
                       (judge_result, calls) \<Rightarrow>
                         store_grade env db1 submission judge_result calls))))"



section \<open>Reading results\<close>

text \<open>
  The shape the source's \<open>JudgeResult\<close> schema and docstring promise for the judge's
  dictionary: \<open>score\<close> is a float between 0 and 100, and \<open>mistakes\<close>, \<open>improvements\<close> and
  \<open>citations\<close> are lists.
\<close>

fun score_in_range :: "pyval \<Rightarrow> bool" where
  "score_in_range (PFloat (Fin x)) = (0 \<le> x \<and> x \<le> 100)"
| "score_in_range _ = False"

fun judge_result_shaped :: "pyval \<Rightarrow> bool" where
  "judge_result_shaped (PDict d) =
     (score_in_range (dict_get d ''score'' PNone) \<and>
      is_list (dict_get d ''mistakes'' PNone) \<and>
      is_list (dict_get d ''improvements'' PNone) \<and>
      is_list (dict_get d ''citations'' PNone))"
| "judge_result_shaped _ = False"

section \<open>A sample environment\<close>

text \<open>
  Concrete inputs need concrete library functions. The tables below give the answers of
  the libraries at the arguments the examples use; every other argument is answered as a
  failure of the call. The texts the examples rely on to fail are
  \<^verbatim>\<open>{"a": {"b": 1}} trailing\<close> and \<^verbatim>\<open>Internal Server Error\<close>, which are not JSON.
\<close>

definition sample_loads :: "string \<Rightarrow> pyval option" where
  \<open>sample_loads s =
     (if s = ''5'' then Some (PInt 5)
      else if s = ''[1]'' then Some (PList [PInt 1])
      else if s = ''{"b": 1}'' then Some (PDict [(PStr ''b'', PInt 1)])
      else if s = ''{"a": {"b": 1}}'' then
        Some (PDict [(PStr ''a'', PDict [(PStr ''b'', PInt 1)])])
      else if s = ''{"score": 150, "mistakes": "typo"}'' then
        Some (PDict [(PStr ''score'', PInt 150), (PStr ''mistakes'', PStr ''typo'')])
      else if s = ''{"assignment_id": "11111111-1111-4111-8111-111111111111", "question_id": "22222222-2222-4222-8222-222222222222", "answer": "42"}'' then
        Some (PDict [(PStr ''assignment_id'', PStr ''11111111-1111-4111-8111-111111111111''),
                     (PStr ''question_id'', PStr ''22222222-2222-4222-8222-222222222222''),
                     (PStr ''answer'', PStr ''42'')])
      else None)\<close>

definition sample_dumps :: "pyval \<Rightarrow> string option" where
  \<open>sample_dumps v =
     (if v = PNone then Some ''null''
      else if v = PDict [] then Some ''{}''
      else if v = PDict [(PStr ''id'', PStr ''22222222-2222-4222-8222-222222222222''),
                         (PStr ''title'', PStr ''VLOOKUP''),
                         (PStr ''spec'', PDict []),
                         (PStr ''rubric'', PDict [])] then
        Some ''{"id": "22222222-2222-4222-8222-222222222222", "title": "VLOOKUP", "spec": {}, "rubric": {}}''
      else if v = PDict [(PStr ''submission_id'', PStr ''33333333-3333-4333-8333-333333333333''),
                         (PStr ''answer'', PStr ''42''),
                         (PStr ''file_url'', PNone),
                         (PStr ''created_at'', PStr ''2025-01-01T00:00:00+00:00'')] then
        Some ''{"submission_id": "33333333-3333-4333-8333-333333333333", "answer": "42", "file_url": null, "created_at": "2025-01-01T00:00:00+00:00"}''
      else None)\<close>

text \<open>\<open>float\<close> on integers small enough to be exact, on booleans and on floats.\<close>

definition sample_float :: "pyval \<Rightarrow> pyfloat option" where
  "sample_float v =
     (case v of
        PInt i \<Rightarrow> (if \<bar>i\<bar> \<le> 1000000 then Some (Fin (of_int i)) else None)
      | PBool b \<Rightarrow> Some (Fin (if b then 1 else 0))
      | PFloat f \<Rightarrow> Some f
      | _ \<Rightarrow> None)"

definition sample_str :: "pyval \<Rightarrow> string" where
  "sample_str v = (case v of PStr s \<Rightarrow> s | PNone \<Rightarrow> ''None'' | _ \<Rightarrow> [])"

text \<open>
  \<open>pandas.read_csv\<close> on a header line with three rows, and on a lone line break, where it
  raises EmptyDataError.
\<close>

definition sample_read_csv :: "string \<Rightarrow> exn + nat" where
  "sample_read_csv s =
     (if s = ''a'' @ [CHR 0x0A] @ ''1'' @ [CHR 0x0A] @ ''2'' @ [CHR 0x0A] @ ''3'' @ [CHR 0x0A]
      then Inr 3
      else Inl (Raised ''No columns to parse from file''))"

definition sample_parse_uuid :: "pyval \<Rightarrow> exn + string" where
  "sample_parse_uuid v =
     (if v = PStr ''11111111-1111-4111-8111-111111111111'' then
        Inr ''11111111-1111-4111-8111-111111111111''
      else if v = PStr ''22222222-2222-4222-8222-222222222222'' then
        Inr ''22222222-2222-4222-8222-222222222222''
      else Inl (Raised ''is not a valid UUID''))"

text \<open>
  The environment of the examples: a credential is configured, debugging is on, the
  endpoint is not reachable, the database stores every row, and a thousand nested activations of
  \<open>make_json_safe\<close> are allowed. The examples change single fields of it.
\<close>

definition sample_env :: env where
  "sample_env =
     \<lparr> api_key = Some ''secret'',
       settings_debug = True,
       post = (\<lambda>req. Inl (Raised ''timed out'')),
       json_loads = sample_loads,
       json_dumps = sample_dumps,
       py_float = sample_float,
       py_str = sample_str,
       builtin_message = (\<lambda>e. []),
       read_csv = sample_read_csv,
       elapsed_ms = 12,
       parse_uuid = sample_parse_uuid,
       generate_signed_url = (\<lambda>u. Inl (Raised ''timed out'')),
       submission_uuid = ''33333333-3333-4333-8333-333333333333'',
       grade_uuid = ''44444444-4444-4444-8444-444444444444'',
       now = ''2025-01-01T00:00:00+00:00'',
       create_submission_error = (\<lambda>row. None),
       create_grade_error = (\<lambda>row. None),
       recursion_budget = 1000 \<rparr>"

text \<open>A response of the endpoint whose chat envelope carries the given content.\<close>

definition chat_response :: "int \<Rightarrow> pyval \<Rightarrow> response" where
  "chat_response status content_value =
     \<lparr> status_code = status,
       body_text = [],
       json_body =
         Some (PDict [(PStr ''choices'',
                 PList [PDict [(PStr ''message'',
                                  PDict [(PStr ''content'', content_value)])]])]) \<rparr>"

definition answering :: "response \<Rightarrow> env" where
  "answering resp = sample_env\<lparr>post := (\<lambda>req. Inr resp)\<rparr>"

definition sample_question :: question_row where
  "sample_question =
     \<lparr> q_id = ''22222222-2222-4222-8222-222222222222'',
       q_title = PStr ''VLOOKUP'',
       q_spec = PDict [],
       q_rubric = PDict [] \<rparr>"




text \<open>
  What the submit endpoint leaves behind for \<open>sample_body\<close> on \<open>sample_db\<close> when no
  credential is configured: the stored submission, the stored grade and the response.
\<close>

definition sample_submission :: submission_row where
  "sample_submission =
     \<lparr> sub_id = ''33333333-3333-4333-8333-333333333333'',
       sub_assignment = ''11111111-1111-4111-8111-111111111111'',
       sub_question = ''22222222-2222-4222-8222-222222222222'',
       sub_answer = PStr ''42'',
       sub_file_url = PNone,
       sub_created_at = ''2025-01-01T00:00:00+00:00'' \<rparr>"







text \<open>A tuple holding a UUID and a dictionary with a UUID key and a date value.\<close>

definition sample_nested :: pyval where
  "sample_nested =
     PTuple [PUuid ''22222222-2222-4222-8222-222222222222'',
             PDict [(PUuid ''33333333-3333-4333-8333-333333333333'', PDate ''2025-01-01'')]]"

section \<open>Facts about the Python helpers\<close>

lemma clamp_score_in_range: "score_in_range (PFloat (clamp_score env v))"
proof -
  have "score_in_range (PFloat (py_max (Fin 0) (py_min (Fin 100) f)))" for f
    by (cases f) (simp_all add: py_max_def py_min_def)
  then show ?thesis by (simp add: clamp_score_def)
qed

lemma is_list_ensure_list: "is_list (ensure_list env x)"
  by (simp add: ensure_list_def)

section \<open>make_json_safe\<close>

lemma sequence_map_cases:
  "(\<And>v. v \<in> set vs \<Longrightarrow> f v = (if P v then Inr (g v) else Inl e))
     \<Longrightarrow> sequence (map f vs) = (if \<forall>v \<in> set vs. P v then Inr (map g vs) else Inl e)"
  by (induction vs) auto

lemma foldr_max_le: "foldr max ns 0 \<le> (n::nat) \<longleftrightarrow> (\<forall>m \<in> set ns. m \<le> n)"
  by (induction ns) auto

lemma nesting_pos: "0 < nesting x"
  by (cases x) simp_all

lemma zip_fst_map_snd:
  "zip (map fst kvs) (map (\<lambda>kv. g (snd kv)) kvs) = map (map_prod id g) kvs"
  by (induction kvs) auto

text \<open>
  The model of the code against the promised result: with enough activations left the
  function returns the image of its argument, and otherwise it raises RecursionError.
\<close>

lemma make_json_safe_cases:
  "make_json_safe n x = (if nesting x \<le> n then Inr (json_safe_image x) else Inl RecursionError)"
proof (induction n arbitrary: x)
  case 0
  then show ?case using nesting_pos [of x] by simp
next
  case (Suc n)
  have elems: "sequence (map (make_json_safe n) vs) =
      (if \<forall>v \<in> set vs. nesting v \<le> n then Inr (map json_safe_image vs) else Inl RecursionError)"
    for vs
    by (rule sequence_map_cases) (simp add: Suc.IH)
  have vals: "sequence (map (\<lambda>kv. make_json_safe n (snd kv)) kvs) =
      (if \<forall>kv \<in> set kvs. nesting (snd kv) \<le> n
       then Inr (map (\<lambda>kv. json_safe_image (snd kv)) kvs) else Inl RecursionError)"
    for kvs :: "(pyval \<times> pyval) list"
    by (rule sequence_map_cases) (simp add: Suc.IH)
  show ?case
  proof (cases x)
    case (PList vs)
    then show ?thesis by (simp add: elems foldr_max_le)
  next
    case (PTuple vs)
    then show ?thesis by (simp add: elems foldr_max_le)
  next
    case (PDict kvs)
    then show ?thesis
      by (auto simp: vals foldr_max_le zip_fst_map_snd)
  qed simp_all
qed

lemma nesting_image: "nesting (json_safe_image x) = nesting x"
proof (induction x)
  case (PList vs)
  then have m: "map nesting (map json_safe_image vs) = map nesting vs" by simp
  show ?case by (simp only: json_safe_image.simps nesting.simps m)
next
  case (PTuple vs)
  then have m: "map nesting (map json_safe_image vs) = map nesting vs" by simp
  show ?case by (simp only: json_safe_image.simps nesting.simps m)
next
  case (PDict kvs)
  have v: "nesting (json_safe_image b) = nesting b" if "(a, b) \<in> set kvs" for a b
    using PDict(2) [of "(a, b)" b] that by simp
  have m: "map snd (map (map_prod (\<lambda>k. k) nesting) (map (map_prod id json_safe_image) kvs))
             = map snd (map (map_prod (\<lambda>k. k) nesting) kvs)"
    using v by auto
  show ?case by (simp only: json_safe_image.simps nesting.simps m)
qed simp_all

lemma image_image: "json_safe_image (json_safe_image x) = json_safe_image x"
  by (induction x) (auto simp: map_prod_def split: prod.splits)

text \<open>For every budget some value is nested too deeply.\<close>

lemma make_json_safe_raises_on_deep_input: "make_json_safe n (wrapped n) = Inl RecursionError"
proof -
  have "nesting (wrapped n) = Suc n" by (induction n) simp_all
  then show ?thesis by (simp add: make_json_safe_cases)
qed

text \<open>
  C10, as stated, fails on dictionary keys: one pass over a dictionary with a UUID key
  returns the dictionary as it is, a fixed point in which a UUID is still no string. And
  it fails on deep values: with a thousand activations allowed, \<open>None\<close> inside a thousand
  lists makes the function raise RecursionError instead of returning.
\<close>

theorem make_json_safe_keeps_uuid_key:
  "make_json_safe 1000 (PDict [(PUuid ''33333333-3333-4333-8333-333333333333'', PInt 1)])
     = Inr (PDict [(PUuid ''33333333-3333-4333-8333-333333333333'', PInt 1)]) \<and>
   unconverted (PDict [(PUuid ''33333333-3333-4333-8333-333333333333'', PInt 1)]) \<and>
   make_json_safe 1000 (wrapped 1000) = Inl RecursionError"
proof -
  have "make_json_safe 1000 (PDict [(PUuid ''33333333-3333-4333-8333-333333333333'', PInt 1)])
     = Inr (PDict [(PUuid ''33333333-3333-4333-8333-333333333333'', PInt 1)])"
    by (simp add: make_json_safe_cases)
  moreover have "unconverted (PDict [(PUuid ''33333333-3333-4333-8333-333333333333'', PInt 1)])"
    by simp
  moreover have "make_json_safe 1000 (wrapped 1000) = Inl RecursionError"
    by (rule make_json_safe_raises_on_deep_input)
  ultimately show ?thesis by blast
qed

text \<open>
  C10, amended. Whenever \<open>make_json_safe\<close> returns, its result is the argument with every
  UUID and date at a value position replaced by its text, every tuple at a value position
  replaced by a list, and everything else (nesting, order, dictionary keys, other values)
  kept; and a second pass over the result returns the result unchanged. It returns
  whenever the argument is nested no deeper than the interpreter allows.
\<close>

theorem make_json_safe_idempotent:
  "(nesting x \<le> n \<longrightarrow> make_json_safe n x = Inr (json_safe_image x)) \<and>
   (\<forall>y. make_json_safe n x = Inr y \<longrightarrow>
        y = json_safe_image x \<and> make_json_safe n y = Inr y)"
  by (simp add: make_json_safe_cases nesting_image image_image)

theorem make_json_safe_idempotent_witness:
  "nesting sample_nested \<le> 1000 \<and>
   make_json_safe 1000 sample_nested
     = Inr (PList [PStr ''22222222-2222-4222-8222-222222222222'',
                   PDict [(PUuid ''33333333-3333-4333-8333-333333333333'', PStr ''2025-01-01'')]]) \<and>
   make_json_safe 1000
       (PList [PStr ''22222222-2222-4222-8222-222222222222'',
               PDict [(PUuid ''33333333-3333-4333-8333-333333333333'', PStr ''2025-01-01'')]])
     = Inr (PList [PStr ''22222222-2222-4222-8222-222222222222'',
                   PDict [(PUuid ''33333333-3333-4333-8333-333333333333'', PStr ''2025-01-01'')]])"
proof -
  let ?y = "PList [PStr ''22222222-2222-4222-8222-222222222222'',
                   PDict [(PUuid ''33333333-3333-4333-8333-333333333333'', PStr ''2025-01-01'')]]"
  have n: "nesting sample_nested \<le> 1000"
    by (simp add: sample_nested_def)
  have i: "json_safe_image sample_nested = ?y"
    by (simp add: sample_nested_def)
  from make_json_safe_idempotent [of sample_nested 1000] n
  have r: "make_json_safe 1000 sample_nested = Inr (json_safe_image sample_nested)"
    and "\<forall>y. make_json_safe 1000 sample_nested = Inr y \<longrightarrow> make_json_safe 1000 y = Inr y"
    by blast+
  then have "make_json_safe 1000 (json_safe_image sample_nested) = Inr (json_safe_image sample_nested)"
    by blast
  with n r show ?thesis by (simp only: i)
qed

section \<open>run_checks\<close>

text \<open>
  C9. \<open>run_checks\<close> returns a dictionary for every environment, spec and answer; it
  never raises. When the \<open>try\<close> block raises \<open>e\<close>, the result has \<open>passed = False\<close>,
  \<open>score_runner = 0.0\<close> and the single check entry
  \<^verbatim>\<open>{"name": "exception", "passed": False, "error": str(e)}\<close>. On a falsy (empty) answer
  the result has \<open>passed = False\<close> and \<open>score_runner = 0.0\<close>.
\<close>

theorem run_checks_never_raises:
  "\<exists>d. run_checks env spec a = Inr (PDict d) \<and>
       (\<forall>e. run_checks_try env a = Inl e \<longrightarrow>
          dict_get d ''passed'' PNone = PBool False \<and>
          dict_get d ''score_runner'' PNone = PFloat (Fin 0) \<and>
          dict_get d ''checks'' PNone =
            PList [PDict [(PStr ''name'', PStr ''exception''),
                          (PStr ''passed'', PBool False),
                          (PStr ''error'', PStr (exn_str env e))]]) \<and>
       (\<not> truthy a \<longrightarrow>
          dict_get d ''passed'' PNone = PBool False \<and>
          dict_get d ''score_runner'' PNone = PFloat (Fin 0))"
  by (auto simp: run_checks_def run_checks_try_def runner_result_def exception_check_def
                 dict_get_def
           split: sum.splits prod.splits)

text \<open>
  The theorem at an answer that is a lone line break: pandas raises EmptyDataError, and
  the runner reports it as a failed check.
\<close>

theorem run_checks_never_raises_witness:
  "run_checks_try sample_env (PStr [CHR 0x0A])
     = Inl (Raised ''No columns to parse from file'') \<and>
   meth_get (projr (run_checks sample_env PNone (PStr [CHR 0x0A]))) ''passed'' PNone
     = Inr (PBool False) \<and>
   meth_get (projr (run_checks sample_env PNone (PStr [CHR 0x0A]))) ''score_runner'' PNone
     = Inr (PFloat (Fin 0)) \<and>
   meth_get (projr (run_checks sample_env PNone (PStr [CHR 0x0A]))) ''checks'' PNone
     = Inr (PList [PDict [(PStr ''name'', PStr ''exception''),
                          (PStr ''passed'', PBool False),
                          (PStr ''error'', PStr ''No columns to parse from file'')]])"
proof -
  let ?a = "PStr [CHR 0x0A]"
  have t: "run_checks_try sample_env ?a = Inl (Raised ''No columns to parse from file'')"
    by (simp add: run_checks_try_def sample_env_def sample_read_csv_def)
  from run_checks_never_raises [of sample_env PNone ?a]
  obtain d where d: "run_checks sample_env PNone ?a = Inr (PDict d)"
    and f: "\<forall>e. run_checks_try sample_env ?a = Inl e \<longrightarrow>
          dict_get d ''passed'' PNone = PBool False \<and>
          dict_get d ''score_runner'' PNone = PFloat (Fin 0) \<and>
          dict_get d ''checks'' PNone =
            PList [PDict [(PStr ''name'', PStr ''exception''),
                          (PStr ''passed'', PBool False),
                          (PStr ''error'', PStr (exn_str sample_env e))]]"
    by blast
  from f t have "dict_get d ''passed'' PNone = PBool False"
    and "dict_get d ''score_runner'' PNone = PFloat (Fin 0)"
    and "dict_get d ''checks'' PNone =
            PList [PDict [(PStr ''name'', PStr ''exception''),
                          (PStr ''passed'', PBool False),
                          (PStr ''error'',
                             PStr (exn_str sample_env (Raised ''No columns to parse from file'')))]]"
    by blast+
  with d t show ?thesis by (simp add: exn_str_def)
qed

lemma run_checks_three_rows:
  "run_checks sample_env PNone
     (PStr (''a'' @ [CHR 0x0A] @ ''1'' @ [CHR 0x0A] @ ''2'' @ [CHR 0x0A] @ ''3'' @ [CHR 0x0A]))
   = Inr (runner_result True
            [PDict [(PStr ''name'', PStr ''rows_present''),
                    (PStr ''passed'', PBool True),
                    (PStr ''rows'', PInt 3)]])"
  by (simp add: run_checks_def run_checks_try_def sample_env_def sample_read_csv_def
        rows_present_check_def)

section \<open>_safe_parse_json\<close>

text \<open>On a string the function returns a value; nothing escapes it.\<close>

lemma safe_parse_json_total_on_str: "\<exists>v. safe_parse_json env (PStr s) = Inr v"
  by (simp add: safe_parse_json_def split: option.splits)

text \<open>
  \<open>rfind\<close> finds the last occurrence: the character is at the index it returns and does
  not occur after it. So the candidate that the handler scans holds no second opening
  brace, and its depth counter never passes 1.
\<close>

lemma rfind_drop:
  "rfind s c = Some i \<Longrightarrow> i < length s \<and> s ! i = c \<and> c \<notin> set (drop (Suc i) s)"
proof (induction s arbitrary: i)
  case Nil
  then show ?case by simp
next
  case (Cons x xs)
  show ?case
  proof (cases "rfind xs c")
    case None
    have "c \<notin> set xs" using None
    proof (induction xs)
      case Nil
      then show ?case by simp
    next
      case (Cons y ys)
      then show ?case by (auto split: option.splits if_splits)
    qed
    with Cons.prems None show ?thesis by (auto split: if_splits)
  next
    case (Some j)
    with Cons.prems have "i = Suc j" by simp
    with Cons.IH [OF Some] show ?thesis by simp
  qed
qed

text \<open>
  C5. On the text \<^verbatim>\<open>{"a": {"b": 1}} trailing\<close> the full parse fails, the last opening brace
  is the inner one, and the function returns the inner object \<^verbatim>\<open>{"b": 1}\<close>, not the outer
  \<^verbatim>\<open>{"a": {"b": 1}}\<close>.
\<close>

theorem safe_parse_json_truncates_nested:
  \<open>safe_parse_json sample_env (PStr ''{"a": {"b": 1}} trailing'')
     = Inr (PDict [(PStr ''b'', PInt 1)])\<close>
  by (simp add: safe_parse_json_def sample_env_def sample_loads_def last_block_def)

text \<open>
  C6. On the text \<^verbatim>\<open>5\<close> the full parse succeeds with the number 5, and the function
  returns that number: a value that is neither a JSON object nor \<open>None\<close>.
\<close>

theorem safe_parse_json_returns_number:
  "safe_parse_json sample_env (PStr ''5'') = Inr (PInt 5)"
  by (simp add: safe_parse_json_def sample_env_def sample_loads_def)

section \<open>judge_answer\<close>

lemma normalize_parsed_shaped:
  "normalize_parsed env parsed status raw = Inr res \<Longrightarrow> judge_result_shaped res"
  by (cases parsed)
     (auto simp: normalize_parsed_def judge_dict_def dict_get_def Let_def
                 clamp_score_in_range is_list_ensure_list)

lemma judge_response_shaped:
  "judge_response env resp = Inr res \<Longrightarrow> judge_result_shaped res"
  by (auto simp: judge_response_def unparsable_result_def judge_dict_def dict_get_def Let_def
           split: prod.splits option.splits sum.splits if_splits
           dest: normalize_parsed_shaped)

text \<open>In the sample environment the three prompts serialise, and the request is made.\<close>

lemma sample_prompt:
  "user_prompt (answering resp) (PDict []) (PDict []) PNone =
     Inr (''Question:'' @ [CHR 0x0A] @ ''{}'' @ [CHR 0x0A, CHR 0x0A] @
          ''Submission:'' @ [CHR 0x0A] @ ''{}'' @ [CHR 0x0A, CHR 0x0A] @
          ''Runner checks:'' @ [CHR 0x0A] @ ''null'' @ [CHR 0x0A, CHR 0x0A] @
          ''Return ONLY the JSON object with keys: score, verdict, mistakes, improvements, citations.'')"
  by (simp add: user_prompt_def answering_def sample_env_def sample_dumps_def)

lemma sample_judge_answer:
  "fst (judge_answer (answering resp) (PDict []) (PDict []) PNone)
     = judge_response (answering resp) resp"
  by (simp add: judge_answer_def sample_prompt key_absent_def Let_def)
     (simp add: answering_def sample_env_def)

text \<open>
  C1. The endpoint answers 200 with the content \<^verbatim>\<open>[1]\<close>. The content parses to a non-empty
  list, \<open>parsed.get\<close> is called on it, and \<open>judge_answer\<close> raises AttributeError instead of
  returning a result.
\<close>

theorem judge_answer_raises_on_list:
  "fst (judge_answer (answering (chat_response 200 (PStr ''[1]''))) (PDict []) (PDict []) PNone)
     = Inl AttributeError"
  by (simp only: sample_judge_answer)
     (simp add: judge_response_def candidate_and_excerpt_def extract_candidate_text_def
          chat_content_def chat_response_def dict_get_def py_or_def excerpt_of_def
          safe_parse_json_def answering_def sample_env_def sample_loads_def
          normalize_parsed_def)

text \<open>
  Two more ways out of \<open>judge_answer\<close>: a content that is a number reaches \<open>text.rfind\<close>
  inside the handler of \<open>_safe_parse_json\<close>, and a \<open>choices\<close> field that is a number makes
  \<open>_extract_candidate_text\<close> raise, which leaves \<open>candidate_text\<close> unbound.
\<close>

lemma judge_answer_raises_on_number_content:
  "fst (judge_answer (answering (chat_response 200 (PInt 7))) (PDict []) (PDict []) PNone)
     = Inl AttributeError"
  by (simp only: sample_judge_answer)
     (simp add: judge_response_def candidate_and_excerpt_def extract_candidate_text_def
          chat_content_def chat_response_def dict_get_def py_or_def excerpt_of_def
          safe_parse_json_def)

lemma judge_answer_raises_on_number_choices:
  "fst (judge_answer
          (answering \<lparr>status_code = 200, body_text = [],
                      json_body = Some (PDict [(PStr ''choices'', PInt 5)])\<rparr>)
          (PDict []) (PDict []) PNone)
     = Inl UnboundLocalError"
  by (simp only: sample_judge_answer)
     (simp add: judge_response_def candidate_and_excerpt_def extract_candidate_text_def
          chat_content_def dict_get_def py_or_def)

text \<open>
  C2. Every value \<open>judge_answer\<close> returns is a dictionary whose \<open>score\<close> is a float between
  0 and 100 and whose \<open>mistakes\<close>, \<open>improvements\<close> and \<open>citations\<close> are lists, whatever the
  environment and the arguments are.
\<close>

theorem judge_answer_shaped:
  "judge_answer env question submission runner_res = (Inr res, calls)
     \<Longrightarrow> judge_result_shaped res"
  by (auto simp: judge_answer_def no_api_key_result_def network_error_result_def
                 judge_dict_def dict_get_def Let_def
           split: if_splits sum.splits
           dest: judge_response_shaped)

text \<open>
  The theorem at a response whose content is \<^verbatim>\<open>{"score": 150, "mistakes": "typo"}\<close>: the
  score is clamped to 100 and the scalar \<open>mistakes\<close> is wrapped into a list.
\<close>

theorem judge_answer_shaped_witness:
  \<open>fst (judge_answer (answering (chat_response 200 (PStr ''{"score": 150, "mistakes": "typo"}'')))
          (PDict []) (PDict []) PNone)
     = Inr (judge_dict (PFloat (Fin 100)) (PStr []) (PList [PStr ''typo'']) (PList []) (PList [])
              (debug_dict (PInt 200) (PStr ''{"score": 150, "mistakes": "typo"}'')))
   \<and> judge_result_shaped
        (judge_dict (PFloat (Fin 100)) (PStr []) (PList [PStr ''typo'']) (PList []) (PList [])
           (debug_dict (PInt 200) (PStr ''{"score": 150, "mistakes": "typo"}'')))\<close>
proof -
  let ?resp = \<open>chat_response 200 (PStr ''{"score": 150, "mistakes": "typo"}'')\<close>
  let ?res = \<open>judge_dict (PFloat (Fin 100)) (PStr []) (PList [PStr ''typo'']) (PList []) (PList [])
              (debug_dict (PInt 200) (PStr ''{"score": 150, "mistakes": "typo"}''))\<close>
  have r: "judge_response (answering ?resp) ?resp = Inr ?res"
    by (simp add: judge_response_def candidate_and_excerpt_def extract_candidate_text_def
          chat_content_def chat_response_def dict_get_def py_or_def excerpt_of_def
          safe_parse_json_def answering_def sample_env_def sample_loads_def
          normalize_parsed_def clamp_score_def sample_float_def py_min_def py_max_def
          ensure_list_def sample_str_def Let_def)
  then have f: "fst (judge_answer (answering ?resp) (PDict []) (PDict []) PNone) = Inr ?res"
    by (simp only: sample_judge_answer)
  obtain calls where "judge_answer (answering ?resp) (PDict []) (PDict []) PNone = (Inr ?res, calls)"
    using f by (cases "judge_answer (answering ?resp) (PDict []) (PDict []) PNone") simp
  from judge_answer_shaped [OF this] f show ?thesis by simp
qed

text \<open>
  C4. The endpoint answers 500 with the body \<^verbatim>\<open>Internal Server Error\<close>. \<open>judge_answer\<close>
  does not look at the status: it goes on to parse the body and returns the result for an
  unparsable response, whose verdict is not the network-error verdict.
\<close>

theorem judge_answer_http_500:
  "fst (judge_answer
          (answering \<lparr>status_code = 500, body_text = ''Internal Server Error'', json_body = None\<rparr>)
          (PDict []) (PDict []) PNone)
     = Inr (unparsable_result (PInt 500) (PStr ''Internal Server Error''))
   \<and> meth_get (unparsable_result (PInt 500) (PStr ''Internal Server Error'')) ''verdict'' PNone
     = Inr (PStr ''Sonar unavailable (unparsable response)'')"
  by (simp only: sample_judge_answer)
     (simp add: judge_response_def candidate_and_excerpt_def extract_candidate_text_def
          py_or_def excerpt_of_def safe_parse_json_def answering_def sample_env_def
          sample_loads_def last_block_def unparsable_result_def judge_dict_def dict_get_def)

text \<open>The network-error result is what a raising \<open>requests.post\<close> leads to.\<close>

lemma judge_answer_network_error:
  "\<not> key_absent env \<Longrightarrow> user_prompt env question submission runner_res = Inr prompt \<Longrightarrow>
   post env (judge_request env prompt) = Inl e \<Longrightarrow>
     judge_answer env question submission runner_res
       = (Inr (network_error_result (exn_str env e)), [judge_request env prompt])"
  by (simp add: judge_answer_def)

text \<open>
  C8. Without a credential \<open>judge_answer\<close> returns, for every question, submission and
  runner result, a result with score \<open>0.0\<close>, the verdict \<open>Sonar unavailable (no API key)\<close>
  and the debug reason \<open>no_api_key\<close>, and it sends no request.
\<close>

theorem judge_answer_no_key:
  "key_absent env \<Longrightarrow>
     \<exists>res. judge_answer env question submission runner_res = (Inr res, []) \<and>
       meth_get res ''score'' PNone = Inr (PFloat (Fin 0)) \<and>
       meth_get res ''verdict'' PNone = Inr (PStr ''Sonar unavailable (no API key)'') \<and>
       meth_get res ''debug'' PNone = Inr (PDict [(PStr ''reason'', PStr ''no_api_key'')])"
  by (simp add: judge_answer_def no_api_key_result_def judge_dict_def dict_get_def)

theorem judge_answer_no_key_witness:
  "key_absent (sample_env\<lparr>api_key := None\<rparr>) \<and>
   judge_answer (sample_env\<lparr>api_key := None\<rparr>) (PDict []) (PDict []) PNone
     = (Inr no_api_key_result, [])"
proof -
  let ?env = "sample_env\<lparr>api_key := None\<rparr>"
  have k: "key_absent ?env"
    by (simp add: key_absent_def)
  from judge_answer_no_key [OF k, of "PDict []" "PDict []" PNone]
  obtain res where "judge_answer ?env (PDict []) (PDict []) PNone = (Inr res, [])"
    by blast
  moreover have "fst (judge_answer ?env (PDict []) (PDict []) PNone) = Inr no_api_key_result"
    using k by (simp add: judge_answer_def)
  ultimately show ?thesis using k by simp
qed

section \<open>ping\<close>

text \<open>
  C7. With \<open>settings.DEBUG\<close> off and no credential, \<open>ping(8)\<close> raises UnboundLocalError
  before it looks at the credential; it returns nothing.
\<close>

theorem ping_raises_outside_debug:
  "ping (sample_env\<lparr>settings_debug := False, api_key := None\<rparr>) 8
     = (Inl UnboundLocalError, [])"
  by (simp add: ping_def)

text \<open>
  Outside debugging this is what every call does; in debugging, a missing credential is
  reported as the claim describes.
\<close>

lemma ping_outside_debug:
  "\<not> settings_debug env \<Longrightarrow> ping env tmo = (Inl UnboundLocalError, [])"
  by (simp add: ping_def)

lemma ping_no_key_in_debug:
  "settings_debug env \<Longrightarrow> key_absent env \<Longrightarrow>
     ping env tmo = (Inr (False, PDict [(PStr ''error'', PStr ''no_api_key'')]), [])"
  by (simp add: ping_def)


section \<open>submit_answer\<close>

text \<open>
  No function on the path of \<open>submit_answer\<close> reads \<open>read_csv\<close>, the one library call of
  the deterministic runner: replacing it changes nothing.
\<close>

lemma brace_scan_read_csv [simp]:
  "brace_scan (env\<lparr>read_csv := f\<rparr>) candidate rest i depth = brace_scan env candidate rest i depth"
  by (induction rest arbitrary: i depth) simp_all

lemma last_block_read_csv [simp]:
  "last_block (env\<lparr>read_csv := f\<rparr>) s = last_block env s"
  by (simp add: last_block_def Let_def cong: option.case_cong)

lemma safe_parse_json_read_csv [simp]:
  "safe_parse_json (env\<lparr>read_csv := f\<rparr>) txt = safe_parse_json env txt"
  by (cases "txt") (simp_all add: safe_parse_json_def Let_def cong: option.case_cong sum.case_cong prod.case_cong if_cong)

lemma extract_candidate_text_read_csv [simp]:
  "extract_candidate_text (env\<lparr>read_csv := f\<rparr>) resp = extract_candidate_text env resp"
  by (simp add: extract_candidate_text_def Let_def cong: option.case_cong sum.case_cong prod.case_cong if_cong)

lemma candidate_and_excerpt_read_csv [simp]:
  "candidate_and_excerpt (env\<lparr>read_csv := f\<rparr>) resp = candidate_and_excerpt env resp"
  by (simp add: candidate_and_excerpt_def Let_def cong: option.case_cong sum.case_cong prod.case_cong if_cong)

lemma normalize_parsed_read_csv [simp]:
  "normalize_parsed (env\<lparr>read_csv := f\<rparr>) parsed status raw = normalize_parsed env parsed status raw"
  by (cases parsed) (simp_all add: normalize_parsed_def clamp_score_def ensure_list_def Let_def cong: option.case_cong sum.case_cong prod.case_cong if_cong)

lemma judge_response_read_csv [simp]:
  "judge_response (env\<lparr>read_csv := f\<rparr>) resp = judge_response env resp"
  by (simp add: judge_response_def Let_def cong: option.case_cong sum.case_cong prod.case_cong if_cong)

lemma exn_str_read_csv [simp]: "exn_str (env\<lparr>read_csv := f\<rparr>) e = exn_str env e"
  by (cases e) (simp_all add: exn_str_def)

lemma user_prompt_read_csv [simp]:
  "user_prompt (env\<lparr>read_csv := f\<rparr>) q s r = user_prompt env q s r"
  by (simp add: user_prompt_def Let_def cong: option.case_cong sum.case_cong prod.case_cong if_cong)

lemma judge_request_read_csv [simp]:
  "judge_request (env\<lparr>read_csv := f\<rparr>) p = judge_request env p"
  by (simp add: judge_request_def auth_headers_def Let_def cong: option.case_cong sum.case_cong prod.case_cong if_cong)

lemma judge_answer_read_csv [simp]:
  "judge_answer (env\<lparr>read_csv := f\<rparr>) q s r = judge_answer env q s r"
  by (simp add: judge_answer_def key_absent_def Let_def cong: option.case_cong sum.case_cong prod.case_cong if_cong)

lemma judge_or_error_read_csv [simp]:
  "judge_or_error (env\<lparr>read_csv := f\<rparr>) outcome = judge_or_error env outcome"
  by (simp add: judge_or_error_def cong: sum.case_cong)

lemma call_judge_read_csv [simp]:
  "call_judge (env\<lparr>read_csv := f\<rparr>) q s = call_judge env q s"
  by (simp add: call_judge_def Let_def
        cong: option.case_cong sum.case_cong prod.case_cong if_cong)

lemma question_payload_of_read_csv [simp]:
  "question_payload_of (env\<lparr>read_csv := f\<rparr>) q = question_payload_of env q"
  by (simp add: question_payload_of_def)

lemma submission_payload_of_read_csv [simp]:
  "submission_payload_of (env\<lparr>read_csv := f\<rparr>) sub = submission_payload_of env sub"
  by (simp add: submission_payload_of_def sonar_file_url_of_def)

lemma new_submission_read_csv [simp]:
  "new_submission (env\<lparr>read_csv := f\<rparr>) a q ans fu = new_submission env a q ans fu"
  by (simp add: new_submission_def)

lemma new_grade_read_csv [simp]:
  "new_grade (env\<lparr>read_csv := f\<rparr>) sub j sc = new_grade env sub j sc"
  by (simp add: new_grade_def)

lemma grading_response_read_csv [simp]:
  "grading_response (env\<lparr>read_csv := f\<rparr>) sub g = grading_response env sub g"
  by (simp add: grading_response_def)

lemma store_grade_read_csv [simp]:
  "store_grade (env\<lparr>read_csv := f\<rparr>) db1 sub j calls = store_grade env db1 sub j calls"
  by (simp add: store_grade_def Let_def
        cong: option.case_cong sum.case_cong prod.case_cong if_cong)

lemma grade_submission_of_read_csv [simp]:
  "grade_submission_of (env\<lparr>read_csv := f\<rparr>) db a q ans fu
     = grade_submission_of env db a q ans fu"
  by (simp add: grade_submission_of_def Let_def
        cong: option.case_cong sum.case_cong prod.case_cong if_cong)

lemma orm_get_read_csv [simp]:
  "orm_get (env\<lparr>read_csv := f\<rparr>) pk rows key = orm_get env pk rows key"
  by (simp add: orm_get_def)


text \<open>The sample submission without a credential, evaluated.\<close>

lemma sample_payloads:
  "question_payload_of sample_env sample_question
     = Inr (PDict [(PStr ''id'', PStr ''22222222-2222-4222-8222-222222222222''),
                   (PStr ''title'', PStr ''VLOOKUP''),
                   (PStr ''spec'', PDict []),
                   (PStr ''rubric'', PDict [])])"
  "submission_payload_of sample_env sample_submission
     = Inr (PDict [(PStr ''submission_id'', PStr ''33333333-3333-4333-8333-333333333333''),
                   (PStr ''answer'', PStr ''42''),
                   (PStr ''file_url'', PNone),
                   (PStr ''created_at'', PStr ''2025-01-01T00:00:00+00:00'')])"
  by (simp_all add: question_payload_of_def submission_payload_of_def sonar_file_url_of_def
        sample_env_def sample_question_def sample_submission_def py_or_def
        make_json_safe_cases)











end
